theory Spec2Isabelle
  imports Main
begin

section \<open>Python values used by \<^verbatim>\<open>tools/bodyteleop/webrtc/stream.py\<close>\<close>

text \<open>
  Every method of the module is a function from the state it can touch to an outcome
  together with the state it leaves behind. A Python exception does not roll back what
  was mutated before it was raised, so the state is returned on the error branch too.
  The \<^verbatim>\<open>print\<close> calls of the module write to standard output only and are left out.
\<close>

datatype error =
    AssertionError string
  | Exception string
  | AttributeError string
  | ExternalError string

text \<open>
  \<open>AssertionError msg\<close> is a failed \<^verbatim>\<open>assert\<close> (the empty string when the statement
  gives no message), \<open>Exception msg\<close> is \<^verbatim>\<open>raise Exception(msg)\<close>, \<open>AttributeError a\<close> is
  the read of an attribute \<open>a\<close> that the object does not have, and \<open>ExternalError\<close> is
  whatever the connection engine or the injected session provider raises. Assertions
  are taken to be executed (the interpreter is not run with \<^verbatim>\<open>-O\<close>).
\<close>

record track =
  kind :: string
  track_id :: string

text \<open>
  \<^verbatim>\<open>str.split(sep)\<close> for a one-character separator: the pieces between the separators,
  so one piece more than there are separators; the empty string gives one empty piece.
\<close>

fun split :: "char \<Rightarrow> string \<Rightarrow> string list" where
  "split sep [] = [[]]"
| "split sep (c # cs) =
     (if c = sep then [] # split sep cs
      else (case split sep cs of
              [] \<Rightarrow> [[c]]
            | p # ps \<Rightarrow> (c # p) # ps))"

subsection \<open>Shared mutable objects\<close>

text \<open>
  The builder creates one \<^verbatim>\<open>set\<close> and two \<^verbatim>\<open>list\<close> objects and hands the objects
  themselves (not copies) to the stream it builds, so both are modelled as addresses into
  a store. A Python set of labels is kept as a duplicate-free list; its iteration order
  is not specified by Python and nothing below depends on it.
\<close>

type_synonym addr = nat

record heap =
  set_objs :: "addr \<Rightarrow> string list"
  list_objs :: "addr \<Rightarrow> track list"
  next_addr :: addr

definition set_add :: "addr \<Rightarrow> string \<Rightarrow> heap \<Rightarrow> heap" where
  "set_add a x h = h\<lparr>set_objs := (set_objs h)(a := List.insert x (set_objs h a))\<rparr>"

definition list_append :: "addr \<Rightarrow> track \<Rightarrow> heap \<Rightarrow> heap" where
  "list_append a t h = h\<lparr>list_objs := (list_objs h)(a := list_objs h a @ [t])\<rparr>"

section \<open>WebRTCStreamBuilder\<close>

text \<open>
  The attributes \<^verbatim>\<open>data_channel\<close>, \<^verbatim>\<open>message_handler\<close> and \<^verbatim>\<open>peer_connection\<close> of the
  builder are set to \<^verbatim>\<open>None\<close> and never read; they are left out.
\<close>

record WebRTCStreamBuilder =
  consumed_camera_tracks :: addr
  consume_audio :: bool
  video_producing_tracks :: addr
  audio_producing_tracks :: addr

definition WebRTCStreamBuilder_init :: "heap \<Rightarrow> heap \<times> WebRTCStreamBuilder" where
  "WebRTCStreamBuilder_init h =
     (let a = next_addr h in
      (h\<lparr>set_objs := (set_objs h)(a := []),
         list_objs := (list_objs h)(a + 1 := [], a + 2 := []),
         next_addr := a + 3\<rparr>,
       \<lparr>consumed_camera_tracks = a, consume_audio = False,
        video_producing_tracks = a + 1, audio_producing_tracks = a + 2\<rparr>))"

type_synonym 'a builder_result = "(error + 'a) \<times> heap \<times> WebRTCStreamBuilder"

definition add_video_consumer ::
  "string \<Rightarrow> heap \<Rightarrow> WebRTCStreamBuilder \<Rightarrow> unit builder_result" where
  "add_video_consumer camera_type h b =
     (if camera_type \<notin> set [''driver'', ''wideRoad'', ''road'']
      then (Inl (AssertionError []), h, b)
      else (Inr (), set_add (consumed_camera_tracks b) camera_type h, b))"

definition add_audio_consumer :: "heap \<Rightarrow> WebRTCStreamBuilder \<Rightarrow> unit builder_result" where
  "add_audio_consumer h b =
     (if consume_audio b
      then (Inl (Exception ''Only one audio consumer allowed''), h, b)
      else (Inr (), h, b\<lparr>consume_audio := True\<rparr>))"

definition add_video_producer ::
  "track \<Rightarrow> heap \<Rightarrow> WebRTCStreamBuilder \<Rightarrow> unit builder_result" where
  "add_video_producer t h b =
     (if kind t \<noteq> ''video''
      then (Inl (AssertionError []), h, b)
      else (Inr (), list_append (video_producing_tracks b) t h, b))"

definition add_audio_producer ::
  "track \<Rightarrow> heap \<Rightarrow> WebRTCStreamBuilder \<Rightarrow> unit builder_result" where
  "add_audio_producer t h b =
     (if kind t \<noteq> ''audio''
      then (Inl (AssertionError []), h, b)
      else (Inr (), list_append (audio_producing_tracks b) t h, b))"

section \<open>The connection and the signalling payload\<close>

record description =
  sdp :: string
  type :: string

text \<open>
  Modelled from the spec: \<^verbatim>\<open>StreamingOffer\<close> is declared in
  \<^verbatim>\<open>tools/bodyteleop/webrtc/common.py\<close>, which is not among the sources. The spec gives
  the offer payload as \<^verbatim>\<open>{sdp, type, video: [label, ...], audio: bool}\<close>, and
  \<^verbatim>\<open>WebRTCOfferStream.start\<close> builds it with exactly these four keywords.
\<close>

record StreamingOffer = description +
  video :: "string list"
  audio :: bool

text \<open>
  \<^verbatim>\<open>aiortc.RTCPeerConnection\<close> is an external library object. The module uses six of its
  methods and two of its properties. The model keeps the two properties and the sequence
  of method calls made on the connection, oldest first. What the engine answers is a
  parameter: \<open>engine\<close> gives, for the connection as it stands, the description that
  \<^verbatim>\<open>createOffer\<close>/\<^verbatim>\<open>createAnswer\<close> returns and the description that the connection
  reports after \<^verbatim>\<open>setLocalDescription\<close>/\<^verbatim>\<open>setRemoteDescription\<close>, or the error raised.
  \<^verbatim>\<open>addTransceiver\<close> and \<^verbatim>\<open>addTrack\<close> are taken to succeed.
\<close>

datatype pc_call =
    AddTransceiver string string
  | AddTrack track
  | CreateOffer
  | CreateAnswer
  | SetLocalDescription description
  | SetRemoteDescription description

record RTCPeerConnection =
  calls :: "pc_call list"
  localDescription :: "description option"
  remoteDescription :: "description option"

record engine =
  offer_made :: "RTCPeerConnection \<Rightarrow> error + description"
  answer_made :: "RTCPeerConnection \<Rightarrow> error + description"
  local_applied :: "description \<Rightarrow> RTCPeerConnection \<Rightarrow> error + description"
  remote_applied :: "description \<Rightarrow> RTCPeerConnection \<Rightarrow> error + description"

definition RTCPeerConnection_init :: RTCPeerConnection where
  "RTCPeerConnection_init = \<lparr>calls = [], localDescription = None, remoteDescription = None\<rparr>"

definition addTransceiver :: "string \<Rightarrow> string \<Rightarrow> RTCPeerConnection \<Rightarrow> RTCPeerConnection" where
  "addTransceiver k direction pc = pc\<lparr>calls := calls pc @ [AddTransceiver k direction]\<rparr>"

definition addTrack :: "track \<Rightarrow> RTCPeerConnection \<Rightarrow> RTCPeerConnection" where
  "addTrack t pc = pc\<lparr>calls := calls pc @ [AddTrack t]\<rparr>"

definition createOffer ::
  "engine \<Rightarrow> RTCPeerConnection \<Rightarrow> (error + description) \<times> RTCPeerConnection" where
  "createOffer eng pc = (offer_made eng pc, pc\<lparr>calls := calls pc @ [CreateOffer]\<rparr>)"

definition createAnswer ::
  "engine \<Rightarrow> RTCPeerConnection \<Rightarrow> (error + description) \<times> RTCPeerConnection" where
  "createAnswer eng pc = (answer_made eng pc, pc\<lparr>calls := calls pc @ [CreateAnswer]\<rparr>)"

definition setLocalDescription ::
  "engine \<Rightarrow> description \<Rightarrow> RTCPeerConnection \<Rightarrow> (error + unit) \<times> RTCPeerConnection" where
  "setLocalDescription eng d pc =
     (let pc' = pc\<lparr>calls := calls pc @ [SetLocalDescription d]\<rparr> in
      case local_applied eng d pc of
        Inl e \<Rightarrow> (Inl e, pc')
      | Inr d' \<Rightarrow> (Inr (), pc'\<lparr>localDescription := Some d'\<rparr>))"

definition setRemoteDescription ::
  "engine \<Rightarrow> description \<Rightarrow> RTCPeerConnection \<Rightarrow> (error + unit) \<times> RTCPeerConnection" where
  "setRemoteDescription eng d pc =
     (let pc' = pc\<lparr>calls := calls pc @ [SetRemoteDescription d]\<rparr> in
      case remote_applied eng d pc of
        Inl e \<Rightarrow> (Inl e, pc')
      | Inr d' \<Rightarrow> (Inr (), pc'\<lparr>remoteDescription := Some d'\<rparr>))"

section \<open>WebRTCBaseStream\<close>

text \<open>
  The relay handle that \<^verbatim>\<open>MediaRelay.subscribe(track, buffered=...)\<close> returns: an opaque
  object of the external library, kept as the track it reads from and the flag.
\<close>

record relay_track =
  source :: track
  buffered :: bool

text \<open>
  \<^verbatim>\<open>__init__\<close> stores the consume-audio flag under the name \<^verbatim>\<open>extected_incoming_audio\<close>.
  \<^verbatim>\<open>_on_incoming_track\<close> reads the name \<^verbatim>\<open>expected_incoming_audio\<close>, which no statement of
  the module assigns: the field of that name is \<open>None\<close> while the object has no such
  attribute. The dictionary and the list of arrived tracks are created by \<^verbatim>\<open>__init__\<close>
  and handed to nobody, so they are held in the record itself.
\<close>

record WebRTCBaseStream =
  peer_connection :: RTCPeerConnection
  expected_incoming_camera_types :: addr
  extected_incoming_audio :: bool
  expected_incoming_audio :: "bool option"
  incoming_camera_tracks :: "string \<rightharpoonup> track"
  incoming_audio_tracks :: "track list"
  outgoing_video_tracks :: addr
  outgoing_audio_tracks :: addr

definition WebRTCBaseStream_init :: "addr \<Rightarrow> bool \<Rightarrow> addr \<Rightarrow> addr \<Rightarrow> WebRTCBaseStream" where
  "WebRTCBaseStream_init consumed_camera_types consume_audio_arg
       video_producer_tracks audio_producer_tracks =
     \<lparr>peer_connection = RTCPeerConnection_init,
      expected_incoming_camera_types = consumed_camera_types,
      extected_incoming_audio = consume_audio_arg,
      expected_incoming_audio = None,
      incoming_camera_tracks = Map.empty,
      incoming_audio_tracks = [],
      outgoing_video_tracks = video_producer_tracks,
      outgoing_audio_tracks = audio_producer_tracks\<rparr>"

definition add_consumer_tracks ::
  "heap \<Rightarrow> 'a WebRTCBaseStream_scheme \<Rightarrow> 'a WebRTCBaseStream_scheme" where
  "add_consumer_tracks h s =
     (let pc1 = fold (\<lambda>_. addTransceiver ''video'' ''recvonly'')
                  (set_objs h (expected_incoming_camera_types s)) (peer_connection s);
          pc2 = (if extected_incoming_audio s
                 then addTransceiver ''audio'' ''recvonly'' pc1 else pc1)
      in s\<lparr>peer_connection := pc2\<rparr>)"

definition add_producer_tracks ::
  "heap \<Rightarrow> 'a WebRTCBaseStream_scheme \<Rightarrow> 'a WebRTCBaseStream_scheme" where
  "add_producer_tracks h s =
     (let pc1 = fold addTrack (list_objs h (outgoing_video_tracks s)) (peer_connection s);
          pc2 = fold addTrack (list_objs h (outgoing_audio_tracks s)) pc1
      in s\<lparr>peer_connection := pc2\<rparr>)"

definition on_incoming_track ::
  "track \<Rightarrow> heap \<Rightarrow> 'a WebRTCBaseStream_scheme \<Rightarrow> (error + unit) \<times> 'a WebRTCBaseStream_scheme" where
  "on_incoming_track t h s =
     (if kind t = ''video'' then
        (let parts = split CHR '':'' (track_id t) in
         if length parts < 2 then (Inr (), s)
         else
           (let camera_type = parts ! 0 in
            if camera_type \<in> set (set_objs h (expected_incoming_camera_types s))
            then (Inr (), s\<lparr>incoming_camera_tracks := (incoming_camera_tracks s)(camera_type \<mapsto> t)\<rparr>)
            else (Inr (), s)))
      else if kind t = ''audio'' then
        (case expected_incoming_audio s of
           None \<Rightarrow> (Inl (AttributeError ''expected_incoming_audio''), s)
         | Some expected \<Rightarrow>
             if expected
             then (Inr (), s\<lparr>incoming_audio_tracks := incoming_audio_tracks s @ [t]\<rparr>)
             else (Inr (), s))
      else (Inr (), s))"

definition get_incoming_video_track ::
  "string \<Rightarrow> bool \<Rightarrow> 'a WebRTCBaseStream_scheme \<Rightarrow> error + relay_track" where
  "get_incoming_video_track camera_type buf s =
     (case incoming_camera_tracks s camera_type of
        None \<Rightarrow> Inl (AssertionError [])
      | Some t \<Rightarrow> Inr \<lparr>source = t, buffered = buf\<rparr>)"

definition get_incoming_audio_track ::
  "bool \<Rightarrow> 'a WebRTCBaseStream_scheme \<Rightarrow> error + relay_track" where
  "get_incoming_audio_track buf s =
     (case incoming_audio_tracks s of
        [] \<Rightarrow> Inl (AssertionError [])
      | t # _ \<Rightarrow> Inr \<lparr>source = t, buffered = buf\<rparr>)"

section \<open>WebRTCOfferStream\<close>

record WebRTCOfferStream = WebRTCBaseStream +
  session_provider :: "StreamingOffer \<Rightarrow> error + description"

definition WebRTCOfferStream_init ::
  "(StreamingOffer \<Rightarrow> error + description) \<Rightarrow> heap \<Rightarrow> addr \<Rightarrow> bool \<Rightarrow> addr \<Rightarrow> addr
     \<Rightarrow> WebRTCOfferStream" where
  "WebRTCOfferStream_init provider h consumed_camera_types consume_audio_arg
       video_producer_tracks audio_producer_tracks =
     add_producer_tracks h
       (WebRTCBaseStream.extend
          (WebRTCBaseStream_init consumed_camera_types consume_audio_arg
             video_producer_tracks audio_producer_tracks)
          (WebRTCOfferStream.fields provider))"

text \<open>
  \<^verbatim>\<open>start\<close> of the offering side. It returns \<^verbatim>\<open>peer_connection.remoteDescription\<close> as it
  is read after the last step. Reading \<^verbatim>\<open>.sdp\<close> of a local description that is still
  \<^verbatim>\<open>None\<close> raises. Both \<^verbatim>\<open>start\<close> methods only read the shared objects; calls on the
  builder that another task makes while \<^verbatim>\<open>start\<close> is suspended at an \<^verbatim>\<open>await\<close> are not
  modelled, so one store serves the whole call.
\<close>

definition WebRTCOfferStream_start ::
  "engine \<Rightarrow> heap \<Rightarrow> WebRTCOfferStream \<Rightarrow> (error + description option) \<times> WebRTCOfferStream" where
  "WebRTCOfferStream_start eng h s0 =
     (let s1 = add_consumer_tracks h s0;
          (r1, pc1) = createOffer eng (peer_connection s1);
          s2 = s1\<lparr>peer_connection := pc1\<rparr>
      in case r1 of
           Inl e \<Rightarrow> (Inl e, s2)
         | Inr offer_desc \<Rightarrow>
             (let (r2, pc2) = setLocalDescription eng offer_desc (peer_connection s2);
                  s3 = s2\<lparr>peer_connection := pc2\<rparr>
              in case r2 of
                   Inl e \<Rightarrow> (Inl e, s3)
                 | Inr _ \<Rightarrow>
                     (case localDescription (peer_connection s3) of
                        None \<Rightarrow> (Inl (AttributeError ''sdp''), s3)
                      | Some actual_offer \<Rightarrow>
                          (let streaming_offer =
                                 \<lparr>sdp = sdp actual_offer, type = type actual_offer,
                                  video = set_objs h (expected_incoming_camera_types s3),
                                  audio = extected_incoming_audio s3\<rparr>
                           in case session_provider s3 streaming_offer of
                                Inl e \<Rightarrow> (Inl e, s3)
                              | Inr remote_answer \<Rightarrow>
                                  (let (r3, pc3) = setRemoteDescription eng remote_answer
                                                     (peer_connection s3);
                                       s4 = s3\<lparr>peer_connection := pc3\<rparr>
                                   in case r3 of
                                        Inl e \<Rightarrow> (Inl e, s4)
                                      | Inr _ \<Rightarrow>
                                          (Inr (remoteDescription (peer_connection s4)), s4))))))"

section \<open>WebRTCAnswerStream\<close>

record WebRTCAnswerStream = WebRTCBaseStream +
  offer :: StreamingOffer

definition WebRTCAnswerStream_init ::
  "StreamingOffer \<Rightarrow> addr \<Rightarrow> bool \<Rightarrow> addr \<Rightarrow> addr \<Rightarrow> WebRTCAnswerStream" where
  "WebRTCAnswerStream_init offer_arg consumed_camera_types consume_audio_arg
       video_producer_tracks audio_producer_tracks =
     WebRTCBaseStream.extend
       (WebRTCBaseStream_init consumed_camera_types consume_audio_arg
          video_producer_tracks audio_producer_tracks)
       (WebRTCAnswerStream.fields offer_arg)"

text \<open>
  \<^verbatim>\<open>start\<close> of the answering side. The offer is passed to \<^verbatim>\<open>setRemoteDescription\<close> as
  it is; the connection reads its \<^verbatim>\<open>sdp\<close> and \<^verbatim>\<open>type\<close> only.
\<close>

definition WebRTCAnswerStream_start ::
  "engine \<Rightarrow> heap \<Rightarrow> WebRTCAnswerStream \<Rightarrow> (error + description option) \<times> WebRTCAnswerStream" where
  "WebRTCAnswerStream_start eng h s0 =
     (if remoteDescription (peer_connection s0) \<noteq> None
      then (Inl (AssertionError ''Connection already established''), s0)
      else
        (let (r1, pc1) = setRemoteDescription eng (description.truncate (offer s0))
                           (peer_connection s0);
             s1 = s0\<lparr>peer_connection := pc1\<rparr>
         in case r1 of
              Inl e \<Rightarrow> (Inl e, s1)
            | Inr _ \<Rightarrow>
                (let s2 = add_consumer_tracks h s1;
                     s3 = add_producer_tracks h s2;
                     (r2, pc2) = createAnswer eng (peer_connection s3);
                     s4 = s3\<lparr>peer_connection := pc2\<rparr>
                 in case r2 of
                      Inl e \<Rightarrow> (Inl e, s4)
                    | Inr answer_desc \<Rightarrow>
                        (let (r3, pc3) = setLocalDescription eng answer_desc (peer_connection s4);
                             s5 = s4\<lparr>peer_connection := pc3\<rparr>
                         in case r3 of
                              Inl e \<Rightarrow> (Inl e, s5)
                            | Inr _ \<Rightarrow> (Inr (localDescription (peer_connection s5)), s5)))))"

section \<open>Handing the builder's configuration to a stream\<close>

text \<open>
  \<^verbatim>\<open>offer\<close> and \<^verbatim>\<open>answer\<close> of the builder pass \<^verbatim>\<open>self.consumed_camera_tracks\<close>,
  \<^verbatim>\<open>self.video_producing_tracks\<close> and \<^verbatim>\<open>self.audio_producing_tracks\<close> themselves, and the
  current value of the flag \<^verbatim>\<open>self.consume_audio\<close>.
\<close>

definition WebRTCStreamBuilder_offer ::
  "(StreamingOffer \<Rightarrow> error + description) \<Rightarrow> heap \<Rightarrow> WebRTCStreamBuilder \<Rightarrow> WebRTCOfferStream" where
  "WebRTCStreamBuilder_offer connection_provider h b =
     WebRTCOfferStream_init connection_provider h (consumed_camera_tracks b) (consume_audio b)
       (video_producing_tracks b) (audio_producing_tracks b)"

definition WebRTCStreamBuilder_answer :: "StreamingOffer \<Rightarrow> WebRTCStreamBuilder \<Rightarrow> WebRTCAnswerStream" where
  "WebRTCStreamBuilder_answer offer_arg b =
     WebRTCAnswerStream_init offer_arg (consumed_camera_tracks b) (consume_audio b)
       (video_producing_tracks b) (audio_producing_tracks b)"

section \<open>Observations and concrete scenarios\<close>

text \<open>
  The receive-only placeholders of a connection are the \<^verbatim>\<open>addTransceiver\<close> calls made
  on it. \<open>placeholders_for n a\<close> is the list of such calls for \<open>n\<close> video labels and
  the audio flag \<open>a\<close>: one video placeholder per label, then one audio placeholder when
  the flag is set.
\<close>

fun is_transceiver :: "pc_call \<Rightarrow> bool" where
  "is_transceiver (AddTransceiver _ _) = True"
| "is_transceiver _ = False"

definition transceivers :: "RTCPeerConnection \<Rightarrow> pc_call list" where
  "transceivers pc = filter is_transceiver (calls pc)"

definition placeholders_for :: "nat \<Rightarrow> bool \<Rightarrow> pc_call list" where
  "placeholders_for n a =
     replicate n (AddTransceiver ''video'' ''recvonly'') @
     (if a then [AddTransceiver ''audio'' ''recvonly''] else [])"

text \<open>
  What a stream is configured with, read through the objects it holds, and what the
  builder currently holds.
\<close>

record configuration =
  expected_video :: "string list"
  expects_audio :: bool
  outgoing_video :: "track list"
  outgoing_audio :: "track list"

definition stream_config :: "heap \<Rightarrow> 'a WebRTCBaseStream_scheme \<Rightarrow> configuration" where
  "stream_config h s =
     \<lparr>expected_video = set_objs h (expected_incoming_camera_types s),
      expects_audio = extected_incoming_audio s,
      outgoing_video = list_objs h (outgoing_video_tracks s),
      outgoing_audio = list_objs h (outgoing_audio_tracks s)\<rparr>"

definition builder_config :: "heap \<Rightarrow> WebRTCStreamBuilder \<Rightarrow> configuration" where
  "builder_config h b =
     \<lparr>expected_video = set_objs h (consumed_camera_tracks b),
      expects_audio = consume_audio b,
      outgoing_video = list_objs h (video_producing_tracks b),
      outgoing_audio = list_objs h (audio_producing_tracks b)\<rparr>"

text \<open>
  A caller's later use of the builder: any of its four adding methods, one after the
  other. A call that raises is caught by the caller, who goes on with the next one.
\<close>

datatype builder_call =
    Add_video_consumer string
  | Add_audio_consumer
  | Add_video_producer track
  | Add_audio_producer track

fun call_builder :: "builder_call \<Rightarrow> heap \<Rightarrow> WebRTCStreamBuilder \<Rightarrow> unit builder_result" where
  "call_builder (Add_video_consumer c) h b = add_video_consumer c h b"
| "call_builder Add_audio_consumer h b = add_audio_consumer h b"
| "call_builder (Add_video_producer t) h b = add_video_producer t h b"
| "call_builder (Add_audio_producer t) h b = add_audio_producer t h b"

fun call_builder_all ::
  "builder_call list \<Rightarrow> heap \<times> WebRTCStreamBuilder \<Rightarrow> heap \<times> WebRTCStreamBuilder" where
  "call_builder_all [] hb = hb"
| "call_builder_all (c # cs) hb = call_builder_all cs (snd (call_builder c (fst hb) (snd hb)))"

text \<open>The store before any object exists, and a builder created in it.\<close>

definition heap0 :: heap where
  "heap0 = \<lparr>set_objs = (\<lambda>_. []), list_objs = (\<lambda>_. []), next_addr = 0\<rparr>"

definition cfg_empty :: "heap \<times> WebRTCStreamBuilder" where
  "cfg_empty = WebRTCStreamBuilder_init heap0"

definition cfg_road :: "heap \<times> WebRTCStreamBuilder" where
  "cfg_road = call_builder_all [Add_video_consumer ''road''] cfg_empty"

definition cfg_road_driver :: "heap \<times> WebRTCStreamBuilder" where
  "cfg_road_driver =
     call_builder_all [Add_video_consumer ''road'', Add_video_consumer ''driver''] cfg_empty"

definition camera :: track where
  "camera = \<lparr>kind = ''video'', track_id = ''driver:0''\<rparr>"

definition microphone :: track where
  "microphone = \<lparr>kind = ''audio'', track_id = ''mic''\<rparr>"

definition cfg_audio :: "heap \<times> WebRTCStreamBuilder" where
  "cfg_audio = call_builder_all [Add_audio_consumer] cfg_empty"

definition cfg_road_camera :: "heap \<times> WebRTCStreamBuilder" where
  "cfg_road_camera =
     call_builder_all [Add_video_consumer ''road'', Add_video_producer camera] cfg_empty"

text \<open>
  An engine that accepts every description as it is given, and a session provider that
  answers every offer.
\<close>

definition offer_sdp :: description where
  "offer_sdp = \<lparr>sdp = ''v=0 o'', type = ''offer''\<rparr>"

definition answer_sdp :: description where
  "answer_sdp = \<lparr>sdp = ''v=0 a'', type = ''answer''\<rparr>"

definition accepting_engine :: engine where
  "accepting_engine =
     \<lparr>offer_made = (\<lambda>_. Inr offer_sdp),
      answer_made = (\<lambda>_. Inr answer_sdp),
      local_applied = (\<lambda>d _. Inr d),
      remote_applied = (\<lambda>d _. Inr d)\<rparr>"

definition answering_provider :: "StreamingOffer \<Rightarrow> error + description" where
  "answering_provider streaming_offer = Inr answer_sdp"

text \<open>The offer of the spec's example: it asks for the driver camera and for audio.\<close>

definition driver_audio_offer :: StreamingOffer where
  "driver_audio_offer =
     \<lparr>sdp = ''v=0 o'', type = ''offer'', video = [''driver''], audio = True\<rparr>"

section \<open>Basic facts\<close>

lemmas builder_defs =
  WebRTCStreamBuilder_init_def add_video_consumer_def add_audio_consumer_def
  add_video_producer_def add_audio_producer_def set_add_def list_append_def

lemmas scenario_defs =
  heap0_def cfg_empty_def cfg_road_def cfg_road_driver_def cfg_road_camera_def cfg_audio_def
  camera_def microphone_def offer_sdp_def answer_sdp_def accepting_engine_def
  answering_provider_def driver_audio_offer_def

lemmas stream_init_defs =
  WebRTCBaseStream_init_def RTCPeerConnection_init_def WebRTCOfferStream_init_def
  WebRTCAnswerStream_init_def WebRTCStreamBuilder_offer_def WebRTCStreamBuilder_answer_def
  WebRTCBaseStream.extend_def WebRTCOfferStream.fields_def WebRTCAnswerStream.fields_def

lemmas pc_defs =
  addTransceiver_def addTrack_def createOffer_def createAnswer_def
  setLocalDescription_def setRemoteDescription_def

lemmas run_defs =
  WebRTCOfferStream_start_def WebRTCAnswerStream_start_def Let_def pc_defs
  add_consumer_tracks_def add_producer_tracks_def scenario_defs builder_defs stream_init_defs

subsection \<open>Splitting a track identifier\<close>

lemma split_not_Nil: "split sep s \<noteq> []"
  by (induction s) (auto split: list.splits)

lemma length_split: "length (split sep s) = Suc (count_list s sep)"
  by (induction s) (auto split: list.splits simp: split_not_Nil)

lemma split_short_iff: "length (split sep s) < 2 \<longleftrightarrow> sep \<notin> set s"
  by (simp add: length_split count_list_0_iff less_Suc_eq)

lemma split_first: "split sep s ! 0 = takeWhile (\<lambda>c. c \<noteq> sep) s"
  by (induction s) (auto split: list.splits simp: split_not_Nil)

subsection \<open>The calls made by the two loops\<close>

lemma fold_addTransceiver:
  "fold (\<lambda>_. addTransceiver k d) xs pc =
     pc\<lparr>calls := calls pc @ replicate (length xs) (AddTransceiver k d)\<rparr>"
proof (induction xs arbitrary: pc)
  case Nil
  show ?case by simp
next
  case (Cons x xs)
  show ?case
    unfolding fold_simps o_apply Cons.IH by (simp add: addTransceiver_def)
qed

lemma fold_addTrack:
  "fold addTrack ts pc = pc\<lparr>calls := calls pc @ map AddTrack ts\<rparr>"
proof (induction ts arbitrary: pc)
  case Nil
  show ?case by simp
next
  case (Cons t ts)
  show ?case
    unfolding fold_simps o_apply Cons.IH by (simp add: addTrack_def)
qed

lemma add_consumer_tracks_pc:
  "peer_connection (add_consumer_tracks h s) =
     (peer_connection s)\<lparr>calls := calls (peer_connection s) @
        placeholders_for (length (set_objs h (expected_incoming_camera_types s)))
          (extected_incoming_audio s)\<rparr>"
  by (simp add: add_consumer_tracks_def fold_addTransceiver addTransceiver_def
      placeholders_for_def)

lemma add_producer_tracks_pc:
  "peer_connection (add_producer_tracks h s) =
     (peer_connection s)\<lparr>calls := calls (peer_connection s) @
        map AddTrack (list_objs h (outgoing_video_tracks s) @
                      list_objs h (outgoing_audio_tracks s))\<rparr>"
  by (simp add: add_producer_tracks_def fold_addTrack)

lemma add_consumer_tracks_fields [simp]:
  "expected_incoming_camera_types (add_consumer_tracks h s) = expected_incoming_camera_types s"
  "extected_incoming_audio (add_consumer_tracks h s) = extected_incoming_audio s"
  "expected_incoming_audio (add_consumer_tracks h s) = expected_incoming_audio s"
  "incoming_camera_tracks (add_consumer_tracks h s) = incoming_camera_tracks s"
  "incoming_audio_tracks (add_consumer_tracks h s) = incoming_audio_tracks s"
  "outgoing_video_tracks (add_consumer_tracks h s) = outgoing_video_tracks s"
  "outgoing_audio_tracks (add_consumer_tracks h s) = outgoing_audio_tracks s"
  by (simp_all add: add_consumer_tracks_def Let_def)

lemma add_producer_tracks_fields [simp]:
  "expected_incoming_camera_types (add_producer_tracks h s) = expected_incoming_camera_types s"
  "extected_incoming_audio (add_producer_tracks h s) = extected_incoming_audio s"
  "expected_incoming_audio (add_producer_tracks h s) = expected_incoming_audio s"
  "incoming_camera_tracks (add_producer_tracks h s) = incoming_camera_tracks s"
  "incoming_audio_tracks (add_producer_tracks h s) = incoming_audio_tracks s"
  "outgoing_video_tracks (add_producer_tracks h s) = outgoing_video_tracks s"
  "outgoing_audio_tracks (add_producer_tracks h s) = outgoing_audio_tracks s"
  by (simp_all add: add_producer_tracks_def Let_def)

lemma transceivers_placeholders_for [simp]:
  "filter is_transceiver (placeholders_for n a) = placeholders_for n a"
  by (simp add: placeholders_for_def)

lemma transceivers_AddTrack [simp]: "filter is_transceiver (map AddTrack ts) = []"
  by (induction ts) simp_all

subsection \<open>Freshly built streams\<close>

lemma offer_init_calls:
  "calls (peer_connection (WebRTCStreamBuilder_offer p h0 b)) =
     map AddTrack (list_objs h0 (video_producing_tracks b) @
                   list_objs h0 (audio_producing_tracks b))"
  by (simp add: WebRTCStreamBuilder_offer_def WebRTCOfferStream_init_def add_producer_tracks_pc
      WebRTCBaseStream.extend_def WebRTCBaseStream_init_def RTCPeerConnection_init_def)

lemma offer_init_fields [simp]:
  "expected_incoming_camera_types (WebRTCStreamBuilder_offer p h0 b) = consumed_camera_tracks b"
  "extected_incoming_audio (WebRTCStreamBuilder_offer p h0 b) = consume_audio b"
  "expected_incoming_audio (WebRTCStreamBuilder_offer p h0 b) = None"
  "outgoing_video_tracks (WebRTCStreamBuilder_offer p h0 b) = video_producing_tracks b"
  "outgoing_audio_tracks (WebRTCStreamBuilder_offer p h0 b) = audio_producing_tracks b"
  "incoming_camera_tracks (WebRTCStreamBuilder_offer p h0 b) = Map.empty"
  "incoming_audio_tracks (WebRTCStreamBuilder_offer p h0 b) = []"
  by (simp_all add: WebRTCStreamBuilder_offer_def WebRTCOfferStream_init_def
      WebRTCBaseStream.extend_def WebRTCBaseStream_init_def)

lemma answer_init_fields [simp]:
  "expected_incoming_camera_types (WebRTCStreamBuilder_answer off b) = consumed_camera_tracks b"
  "extected_incoming_audio (WebRTCStreamBuilder_answer off b) = consume_audio b"
  "expected_incoming_audio (WebRTCStreamBuilder_answer off b) = None"
  "outgoing_video_tracks (WebRTCStreamBuilder_answer off b) = video_producing_tracks b"
  "outgoing_audio_tracks (WebRTCStreamBuilder_answer off b) = audio_producing_tracks b"
  "incoming_camera_tracks (WebRTCStreamBuilder_answer off b) = Map.empty"
  "incoming_audio_tracks (WebRTCStreamBuilder_answer off b) = []"
  "peer_connection (WebRTCStreamBuilder_answer off b) = RTCPeerConnection_init"
  "offer (WebRTCStreamBuilder_answer off b) = off"
  by (simp_all add: WebRTCStreamBuilder_answer_def WebRTCAnswerStream_init_def
      WebRTCBaseStream.extend_def WebRTCBaseStream_init_def WebRTCAnswerStream.fields_def)

subsection \<open>What a completed negotiation has called\<close>

lemma answer_start_calls:
  assumes "fst (WebRTCAnswerStream_start eng h s) = Inr d"
  shows "\<exists>a. calls (peer_connection (snd (WebRTCAnswerStream_start eng h s))) =
          calls (peer_connection s) @ [SetRemoteDescription (description.truncate (offer s))] @
          placeholders_for (length (set_objs h (expected_incoming_camera_types s)))
            (extected_incoming_audio s) @
          map AddTrack (list_objs h (outgoing_video_tracks s) @
                        list_objs h (outgoing_audio_tracks s)) @
          [CreateAnswer, SetLocalDescription a]"
  using assms
  by (auto simp: WebRTCAnswerStream_start_def Let_def pc_defs add_consumer_tracks_pc
      add_producer_tracks_pc split: if_splits sum.splits prod.splits)

lemma answer_start_remote:
  assumes "fst (WebRTCAnswerStream_start eng h s) = Inr d"
  shows "remoteDescription (peer_connection (snd (WebRTCAnswerStream_start eng h s))) \<noteq> None"
  using assms
  by (auto simp: WebRTCAnswerStream_start_def Let_def pc_defs add_consumer_tracks_pc
      add_producer_tracks_pc split: if_splits sum.splits prod.splits)

lemma offer_start_calls:
  assumes "fst (WebRTCOfferStream_start eng h s) = Inr d"
  shows "\<exists>od a. calls (peer_connection (snd (WebRTCOfferStream_start eng h s))) =
          calls (peer_connection s) @
          placeholders_for (length (set_objs h (expected_incoming_camera_types s)))
            (extected_incoming_audio s) @
          [CreateOffer, SetLocalDescription od, SetRemoteDescription a]"
  using assms
  by (auto simp: WebRTCOfferStream_start_def Let_def pc_defs add_consumer_tracks_pc
      split: if_splits sum.splits prod.splits option.splits)

subsection \<open>The attribute that is never assigned\<close>

lemma answer_start_attr:
  "expected_incoming_audio (snd (WebRTCAnswerStream_start eng h s)) = expected_incoming_audio s"
  by (simp add: WebRTCAnswerStream_start_def Let_def split: prod.splits sum.splits)

lemma offer_start_attr:
  "expected_incoming_audio (snd (WebRTCOfferStream_start eng h s)) = expected_incoming_audio s"
  by (simp add: WebRTCOfferStream_start_def Let_def split: prod.splits sum.splits option.splits)

lemma on_incoming_track_attr:
  "expected_incoming_audio (snd (on_incoming_track t h s)) = expected_incoming_audio s"
  by (simp add: on_incoming_track_def Let_def split: option.splits)

lemma audio_arrival_no_attribute:
  "expected_incoming_audio s = None \<Longrightarrow>
   on_incoming_track (t\<lparr>kind := ''audio''\<rparr>) h s =
     (Inl (AttributeError ''expected_incoming_audio''), s)"
  by (simp add: on_incoming_track_def)

subsection \<open>The registry holds expected labels only\<close>

lemma registry_within_expected_init:
  "dom (incoming_camera_tracks (WebRTCBaseStream_init a f v u)) \<subseteq> S"
  by (simp add: WebRTCBaseStream_init_def)

lemma registry_within_expected_step:
  assumes "dom (incoming_camera_tracks s) \<subseteq> set (set_objs h (expected_incoming_camera_types s))"
  shows "dom (incoming_camera_tracks (snd (on_incoming_track t h s)))
           \<subseteq> set (set_objs h (expected_incoming_camera_types (snd (on_incoming_track t h s))))"
  using assms by (auto simp: on_incoming_track_def Let_def split: option.splits if_splits)

lemma start_keeps_registry:
  "incoming_camera_tracks (snd (WebRTCAnswerStream_start eng h s)) = incoming_camera_tracks s"
  "expected_incoming_camera_types (snd (WebRTCAnswerStream_start eng h s)) =
     expected_incoming_camera_types s"
  "incoming_camera_tracks (snd (WebRTCOfferStream_start eng h s')) = incoming_camera_tracks s'"
  "expected_incoming_camera_types (snd (WebRTCOfferStream_start eng h s')) =
     expected_incoming_camera_types s'"
  by (simp_all add: WebRTCAnswerStream_start_def WebRTCOfferStream_start_def Let_def
      split: prod.splits sum.splits option.splits)

lemma call_builder_set_grows:
  "set (set_objs h a) \<subseteq> set (set_objs (fst (snd (call_builder c h b))) a)"
  by (cases c) (auto simp: add_video_consumer_def add_audio_consumer_def
      add_video_producer_def add_audio_producer_def set_add_def list_append_def)

lemma registry_within_expected_builder:
  assumes "dom (incoming_camera_tracks s) \<subseteq> set (set_objs h (expected_incoming_camera_types s))"
  shows "dom (incoming_camera_tracks s)
           \<subseteq> set (set_objs (fst (snd (call_builder c h b))) (expected_incoming_camera_types s))"
  using assms call_builder_set_grows [of h "expected_incoming_camera_types s" c b] by blast

subsection \<open>Builder calls\<close>

lemma builder_failures:
  "isl (fst (add_video_consumer c h b)) \<longleftrightarrow> c \<notin> {''driver'', ''wideRoad'', ''road''}"
  "isl (fst (add_audio_consumer h b)) \<longleftrightarrow> consume_audio b"
  "isl (fst (add_video_producer t h b)) \<longleftrightarrow> kind t \<noteq> ''video''"
  "isl (fst (add_audio_producer t h b)) \<longleftrightarrow> kind t \<noteq> ''audio''"
  by (simp_all add: add_video_consumer_def add_audio_consumer_def add_video_producer_def
      add_audio_producer_def)

lemma set_add_distinct:
  "distinct (set_objs h a) \<Longrightarrow> distinct (set_objs (set_add a x h) a)"
  by (simp add: set_add_def)

lemma add_video_consumer_twice:
  "snd (add_video_consumer c (fst (snd (add_video_consumer c h b)))
          (snd (snd (add_video_consumer c h b)))) = snd (add_video_consumer c h b)"
  by (simp add: add_video_consumer_def set_add_def)

lemma add_video_consumer_repeated:
  "call_builder_all (replicate (Suc n) (Add_video_consumer c)) hb
     = snd (add_video_consumer c (fst hb) (snd hb))"
proof (induction n arbitrary: hb)
  case 0
  show ?case by simp
next
  case (Suc n)
  have "call_builder_all (replicate (Suc (Suc n)) (Add_video_consumer c)) hb
          = call_builder_all (replicate (Suc n) (Add_video_consumer c))
              (snd (add_video_consumer c (fst hb) (snd hb)))"
    by simp
  also have "\<dots> = snd (add_video_consumer c (fst (snd (add_video_consumer c (fst hb) (snd hb))))
          (snd (snd (add_video_consumer c (fst hb) (snd hb)))))"
    by (rule Suc.IH)
  finally show ?case
    by (simp only: add_video_consumer_twice)
qed

lemma call_builder_addrs:
  "consumed_camera_tracks (snd (snd (call_builder c h b))) = consumed_camera_tracks b \<and>
   video_producing_tracks (snd (snd (call_builder c h b))) = video_producing_tracks b \<and>
   audio_producing_tracks (snd (snd (call_builder c h b))) = audio_producing_tracks b"
  by (cases c) (simp_all add: add_video_consumer_def add_audio_consumer_def
      add_video_producer_def add_audio_producer_def)

lemma call_builder_all_addrs:
  "consumed_camera_tracks (snd (call_builder_all cs hb)) = consumed_camera_tracks (snd hb) \<and>
   video_producing_tracks (snd (call_builder_all cs hb)) = video_producing_tracks (snd hb) \<and>
   audio_producing_tracks (snd (call_builder_all cs hb)) = audio_producing_tracks (snd hb)"
proof (induction cs arbitrary: hb)
  case Nil
  show ?case by simp
next
  case (Cons c cs)
  show ?case
    using Cons.IH [of "snd (call_builder c (fst hb) (snd hb))"]
      call_builder_addrs [of c "fst hb" "snd hb"]
    by simp
qed

section \<open>Receive-only placeholders of the answering side\<close>

text \<open>
  Claim C1, as amended. The claim says that an answering stream registers its receive-only
  placeholders from what the offer declared. The code never reads the offer's \<^verbatim>\<open>video\<close>
  and \<^verbatim>\<open>audio\<close> fields: \<^verbatim>\<open>_add_consumer_tracks\<close> iterates over the stream's own expected
  camera types and tests its own audio flag. What holds: when \<^verbatim>\<open>start\<close> of an answering
  stream completes, the placeholders it has added are one video placeholder per label of
  the stream's configured expected set, followed by one audio placeholder exactly when the
  configured audio flag is set, whatever the offer declared.
\<close>

theorem answer_start_placeholders_from_configuration:
  assumes "fst (WebRTCAnswerStream_start eng h s) = Inr d"
  shows "transceivers (peer_connection (snd (WebRTCAnswerStream_start eng h s))) =
           transceivers (peer_connection s) @
           placeholders_for (length (set_objs h (expected_incoming_camera_types s)))
             (extected_incoming_audio s)"
proof -
  from answer_start_calls [OF assms] obtain a where
    "calls (peer_connection (snd (WebRTCAnswerStream_start eng h s))) =
          calls (peer_connection s) @ [SetRemoteDescription (description.truncate (offer s))] @
          placeholders_for (length (set_objs h (expected_incoming_camera_types s)))
            (extected_incoming_audio s) @
          map AddTrack (list_objs h (outgoing_video_tracks s) @
                        list_objs h (outgoing_audio_tracks s)) @
          [CreateAnswer, SetLocalDescription a]"
    by blast
  then show ?thesis
    by (simp add: transceivers_def del: map_append)
qed

text \<open>
  The theorem at a stream that expects the road and the driver camera and answers the
  offer asking for the driver camera and audio: two video placeholders, no audio one.
\<close>

theorem answer_start_placeholders_from_configuration_witness:
  "fst (WebRTCAnswerStream_start accepting_engine (fst cfg_road_driver)
      (WebRTCStreamBuilder_answer driver_audio_offer (snd cfg_road_driver)))
     = Inr (Some answer_sdp) \<and>
   transceivers (peer_connection (snd (WebRTCAnswerStream_start accepting_engine
      (fst cfg_road_driver)
      (WebRTCStreamBuilder_answer driver_audio_offer (snd cfg_road_driver)))))
     = [AddTransceiver ''video'' ''recvonly'', AddTransceiver ''video'' ''recvonly'']"
proof -
  have ok: "fst (WebRTCAnswerStream_start accepting_engine (fst cfg_road_driver)
      (WebRTCStreamBuilder_answer driver_audio_offer (snd cfg_road_driver)))
     = Inr (Some answer_sdp)"
    by (simp add: run_defs)
  have cfg: "set_objs (fst cfg_road_driver) (consumed_camera_tracks (snd cfg_road_driver))
               = [''driver'', ''road'']"
      "consume_audio (snd cfg_road_driver) = False"
    by (simp_all add: scenario_defs builder_defs)
  show ?thesis
    using ok answer_start_placeholders_from_configuration [OF ok] cfg
    by (simp add: transceivers_def placeholders_for_def RTCPeerConnection_init_def)
qed

text \<open>
  The spec's own example refutes the claim as stated: a builder with no expected
  incoming kinds answers the offer that declares \<^verbatim>\<open>video: ["driver"], audio: true\<close>.
  Negotiation completes and no placeholder has been registered, where the claim asks
  for one video and one audio placeholder.
\<close>

theorem answer_start_placeholders_not_from_offer:
  "fst (WebRTCAnswerStream_start accepting_engine (fst cfg_empty)
      (WebRTCStreamBuilder_answer driver_audio_offer (snd cfg_empty))) = Inr (Some answer_sdp) \<and>
   transceivers (peer_connection (snd (WebRTCAnswerStream_start accepting_engine (fst cfg_empty)
      (WebRTCStreamBuilder_answer driver_audio_offer (snd cfg_empty))))) = [] \<and>
   placeholders_for (length (video driver_audio_offer)) (audio driver_audio_offer) =
     [AddTransceiver ''video'' ''recvonly'', AddTransceiver ''audio'' ''recvonly''] \<and>
   transceivers (peer_connection (snd (WebRTCAnswerStream_start accepting_engine (fst cfg_empty)
      (WebRTCStreamBuilder_answer driver_audio_offer (snd cfg_empty))))) \<noteq>
     placeholders_for (length (video driver_audio_offer)) (audio driver_audio_offer)"
  by (simp add: run_defs transceivers_def placeholders_for_def)

section \<open>Starting a stream a second time\<close>

text \<open>
  Claim C2, as amended. The claim says that a second \<^verbatim>\<open>start\<close> fails on both kinds of
  stream and leaves the state as it was. Only \<^verbatim>\<open>WebRTCAnswerStream.start\<close> checks anything:
  it asserts that the connection has no remote description yet. What holds: on an
  answering stream whose \<^verbatim>\<open>start\<close> has completed, another \<^verbatim>\<open>start\<close> (with any engine and
  any store) fails the assertion "Connection already established" and leaves the stream
  exactly as it was.
\<close>

theorem answer_second_start_rejected:
  assumes "fst (WebRTCAnswerStream_start eng h s) = Inr d"
  shows "WebRTCAnswerStream_start eng' h' (snd (WebRTCAnswerStream_start eng h s)) =
           (Inl (AssertionError ''Connection already established''),
            snd (WebRTCAnswerStream_start eng h s))"
  using answer_start_remote [OF assms]
  by (simp add: WebRTCAnswerStream_start_def)

theorem answer_second_start_rejected_witness:
  "fst (WebRTCAnswerStream_start accepting_engine (fst cfg_road)
      (WebRTCStreamBuilder_answer driver_audio_offer (snd cfg_road))) = Inr (Some answer_sdp) \<and>
   WebRTCAnswerStream_start accepting_engine (fst cfg_road)
     (snd (WebRTCAnswerStream_start accepting_engine (fst cfg_road)
        (WebRTCStreamBuilder_answer driver_audio_offer (snd cfg_road)))) =
     (Inl (AssertionError ''Connection already established''),
      snd (WebRTCAnswerStream_start accepting_engine (fst cfg_road)
        (WebRTCStreamBuilder_answer driver_audio_offer (snd cfg_road))))"
proof -
  have ok: "fst (WebRTCAnswerStream_start accepting_engine (fst cfg_road)
      (WebRTCStreamBuilder_answer driver_audio_offer (snd cfg_road))) = Inr (Some answer_sdp)"
    by (simp add: run_defs)
  show ?thesis
    using ok answer_second_start_rejected [OF ok, of accepting_engine "fst cfg_road"]
    by simp
qed

text \<open>
  An offering stream that expects the road camera is started twice. Both calls return the
  remote answer, and the second one has registered a second placeholder and negotiated
  again: it neither fails nor leaves the state unchanged.
\<close>

theorem offer_second_start_runs_again:
  "fst (WebRTCOfferStream_start accepting_engine (fst cfg_road)
     (WebRTCStreamBuilder_offer answering_provider (fst cfg_road) (snd cfg_road)))
     = Inr (Some answer_sdp) \<and>
   fst (WebRTCOfferStream_start accepting_engine (fst cfg_road)
     (snd (WebRTCOfferStream_start accepting_engine (fst cfg_road)
        (WebRTCStreamBuilder_offer answering_provider (fst cfg_road) (snd cfg_road)))))
     = Inr (Some answer_sdp) \<and>
   calls (peer_connection (snd (WebRTCOfferStream_start accepting_engine (fst cfg_road)
     (WebRTCStreamBuilder_offer answering_provider (fst cfg_road) (snd cfg_road)))))
     = [AddTransceiver ''video'' ''recvonly'', CreateOffer,
        SetLocalDescription offer_sdp, SetRemoteDescription answer_sdp] \<and>
   calls (peer_connection (snd (WebRTCOfferStream_start accepting_engine (fst cfg_road)
     (snd (WebRTCOfferStream_start accepting_engine (fst cfg_road)
        (WebRTCStreamBuilder_offer answering_provider (fst cfg_road) (snd cfg_road)))))))
     = [AddTransceiver ''video'' ''recvonly'', CreateOffer,
        SetLocalDescription offer_sdp, SetRemoteDescription answer_sdp,
        AddTransceiver ''video'' ''recvonly'', CreateOffer,
        SetLocalDescription offer_sdp, SetRemoteDescription answer_sdp]"
  by (simp add: run_defs)

section \<open>Arriving video tracks\<close>

text \<open>
  Claim C3, as amended. The claim says that the first track to arrive for a label is kept
  and later ones with the same label are dropped. The handler assigns
  \<^verbatim>\<open>incoming_camera_tracks[camera_type] = track\<close> without looking at what is stored. What
  holds: every arriving video track whose identifier has at least two parts and whose
  label is expected is stored under its label, replacing whatever was stored there, and
  the handler does not raise; so the last arrival for a label is the one kept.
\<close>

theorem expected_video_arrival_stored:
  assumes "kind t = ''video''"
    and "2 \<le> length (split CHR '':'' (track_id t))"
    and "split CHR '':'' (track_id t) ! 0 \<in> set (set_objs h (expected_incoming_camera_types s))"
  shows "on_incoming_track t h s =
           (Inr (), s\<lparr>incoming_camera_tracks :=
                        (incoming_camera_tracks s)(split CHR '':'' (track_id t) ! 0 \<mapsto> t)\<rparr>)"
  using assms by (simp add: on_incoming_track_def Let_def)

theorem expected_video_arrival_stored_witness:
  "kind \<lparr>kind = ''video'', track_id = ''road:a''\<rparr> = ''video'' \<and>
   2 \<le> length (split CHR '':'' (track_id \<lparr>kind = ''video'', track_id = ''road:a''\<rparr>)) \<and>
   split CHR '':'' (track_id \<lparr>kind = ''video'', track_id = ''road:a''\<rparr>) ! 0 = ''road'' \<and>
   ''road'' \<in> set (set_objs (fst cfg_road) (expected_incoming_camera_types
       (WebRTCStreamBuilder_answer driver_audio_offer (snd cfg_road)))) \<and>
   on_incoming_track \<lparr>kind = ''video'', track_id = ''road:a''\<rparr> (fst cfg_road)
       (WebRTCStreamBuilder_answer driver_audio_offer (snd cfg_road)) =
     (Inr (), (WebRTCStreamBuilder_answer driver_audio_offer (snd cfg_road))
        \<lparr>incoming_camera_tracks := [''road'' \<mapsto> \<lparr>kind = ''video'', track_id = ''road:a''\<rparr>]\<rparr>)"
proof -
  have parts: "split CHR '':'' (track_id \<lparr>kind = ''video'', track_id = ''road:a''\<rparr>)
                 = [''road'', ''a'']"
    by simp
  have expected: "''road'' \<in> set (set_objs (fst cfg_road) (expected_incoming_camera_types
       (WebRTCStreamBuilder_answer driver_audio_offer (snd cfg_road))))"
    by (simp add: scenario_defs builder_defs)
  show ?thesis
    using expected_video_arrival_stored [of "\<lparr>kind = ''video'', track_id = ''road:a''\<rparr>"
        "fst cfg_road" "WebRTCStreamBuilder_answer driver_audio_offer (snd cfg_road)"]
      expected
    unfolding parts by simp
qed

text \<open>
  Two tracks labelled \<^verbatim>\<open>road\<close> arrive one after the other at a stream that expects the
  road camera. After the first arrival the registry holds the first track; after the
  second it holds the second track and no longer the first.
\<close>

theorem second_arrival_replaces_first:
  "incoming_camera_tracks
     (snd (on_incoming_track \<lparr>kind = ''video'', track_id = ''road:a''\<rparr> (fst cfg_road)
        (WebRTCStreamBuilder_answer driver_audio_offer (snd cfg_road)))) ''road''
     = Some \<lparr>kind = ''video'', track_id = ''road:a''\<rparr> \<and>
   incoming_camera_tracks
     (snd (on_incoming_track \<lparr>kind = ''video'', track_id = ''road:b''\<rparr> (fst cfg_road)
        (snd (on_incoming_track \<lparr>kind = ''video'', track_id = ''road:a''\<rparr> (fst cfg_road)
           (WebRTCStreamBuilder_answer driver_audio_offer (snd cfg_road)))))) ''road''
     = Some \<lparr>kind = ''video'', track_id = ''road:b''\<rparr> \<and>
   incoming_camera_tracks
     (snd (on_incoming_track \<lparr>kind = ''video'', track_id = ''road:b''\<rparr> (fst cfg_road)
        (snd (on_incoming_track \<lparr>kind = ''video'', track_id = ''road:a''\<rparr> (fst cfg_road)
           (WebRTCStreamBuilder_answer driver_audio_offer (snd cfg_road)))))) ''road''
     \<noteq> Some \<lparr>kind = ''video'', track_id = ''road:a''\<rparr>"
  by (simp add: on_incoming_track_def scenario_defs builder_defs stream_init_defs)

section \<open>Arriving audio tracks\<close>

text \<open>
  Claim C4 does not hold of the code. The claim says that the handler never raises on an
  audio track and stores or drops it according to the configuration. The handler reads
  \<^verbatim>\<open>self.expected_incoming_audio\<close>, while \<^verbatim>\<open>__init__\<close> stored the flag as
  \<^verbatim>\<open>self.extected_incoming_audio\<close>. On every stream a builder makes, before and after
  \<^verbatim>\<open>start\<close>, and whatever the configuration, the arrival of an audio track raises
  \<^verbatim>\<open>AttributeError\<close> and stores nothing.
\<close>

theorem audio_arrival_raises_AttributeError:
  "on_incoming_track (t\<lparr>kind := ''audio''\<rparr>) h (WebRTCStreamBuilder_answer off b) =
     (Inl (AttributeError ''expected_incoming_audio''), WebRTCStreamBuilder_answer off b) \<and>
   on_incoming_track (t\<lparr>kind := ''audio''\<rparr>) h (WebRTCStreamBuilder_offer p h0 b) =
     (Inl (AttributeError ''expected_incoming_audio''), WebRTCStreamBuilder_offer p h0 b) \<and>
   on_incoming_track (t\<lparr>kind := ''audio''\<rparr>) h
       (snd (WebRTCAnswerStream_start eng h1 (WebRTCStreamBuilder_answer off b))) =
     (Inl (AttributeError ''expected_incoming_audio''),
      snd (WebRTCAnswerStream_start eng h1 (WebRTCStreamBuilder_answer off b))) \<and>
   on_incoming_track (t\<lparr>kind := ''audio''\<rparr>) h
       (snd (WebRTCOfferStream_start eng h1 (WebRTCStreamBuilder_offer p h0 b))) =
     (Inl (AttributeError ''expected_incoming_audio''),
      snd (WebRTCOfferStream_start eng h1 (WebRTCStreamBuilder_offer p h0 b)))"
  by (simp add: audio_arrival_no_attribute answer_start_attr offer_start_attr)

section \<open>Order of the offering side's calls\<close>

text \<open>
  Claim C5, as amended. The claim puts the registration of the placeholders before the
  attachment of the outgoing tracks. \<^verbatim>\<open>WebRTCOfferStream.__init__\<close> calls
  \<^verbatim>\<open>_add_producer_tracks\<close>, so the tracks are attached when the stream is constructed, and
  \<^verbatim>\<open>start\<close> begins with \<^verbatim>\<open>_add_consumer_tracks\<close>. What holds: the calls made on the
  connection of an offering stream, from its construction to the end of a completed
  \<^verbatim>\<open>start\<close>, are the attachment of every outgoing track (video, then audio), then the
  placeholders for every expected incoming kind, and only after both the creation of the
  local offer and the setting of the local description (followed by the setting of the
  remote description).
\<close>

theorem offer_negotiation_call_order:
  assumes "fst (WebRTCOfferStream_start eng h (WebRTCStreamBuilder_offer p h0 b)) = Inr d"
  shows "\<exists>od a.
     calls (peer_connection
        (snd (WebRTCOfferStream_start eng h (WebRTCStreamBuilder_offer p h0 b)))) =
       map AddTrack (list_objs h0 (video_producing_tracks b) @
                     list_objs h0 (audio_producing_tracks b)) @
       placeholders_for (length (set_objs h (consumed_camera_tracks b))) (consume_audio b) @
       [CreateOffer, SetLocalDescription od, SetRemoteDescription a]"
  using offer_start_calls [OF assms] by (simp add: offer_init_calls del: map_append)

theorem offer_negotiation_call_order_witness:
  "fst (WebRTCOfferStream_start accepting_engine (fst cfg_road_camera)
     (WebRTCStreamBuilder_offer answering_provider (fst cfg_road_camera) (snd cfg_road_camera)))
     = Inr (Some answer_sdp) \<and>
   (\<exists>od a.
     calls (peer_connection (snd (WebRTCOfferStream_start accepting_engine (fst cfg_road_camera)
       (WebRTCStreamBuilder_offer answering_provider (fst cfg_road_camera)
          (snd cfg_road_camera))))) =
       map AddTrack (list_objs (fst cfg_road_camera) (video_producing_tracks (snd cfg_road_camera)) @
                     list_objs (fst cfg_road_camera) (audio_producing_tracks (snd cfg_road_camera))) @
       placeholders_for
         (length (set_objs (fst cfg_road_camera) (consumed_camera_tracks (snd cfg_road_camera))))
         (consume_audio (snd cfg_road_camera)) @
       [CreateOffer, SetLocalDescription od, SetRemoteDescription a])"
proof -
  have ok: "fst (WebRTCOfferStream_start accepting_engine (fst cfg_road_camera)
     (WebRTCStreamBuilder_offer answering_provider (fst cfg_road_camera) (snd cfg_road_camera)))
     = Inr (Some answer_sdp)"
    by (simp add: run_defs)
  show ?thesis
    using ok offer_negotiation_call_order [OF ok] by simp
qed

text \<open>
  A builder with the road camera expected and one camera track to send. The stream it
  builds has attached the track before \<^verbatim>\<open>start\<close> is called, and after \<^verbatim>\<open>start\<close> the
  attachment precedes the placeholder; the order the claim gives, placeholder first, is
  not the order of the calls.
\<close>

theorem offer_tracks_attached_before_placeholders:
  "calls (peer_connection
     (WebRTCStreamBuilder_offer answering_provider (fst cfg_road_camera) (snd cfg_road_camera)))
     = [AddTrack camera] \<and>
   calls (peer_connection (snd (WebRTCOfferStream_start accepting_engine (fst cfg_road_camera)
     (WebRTCStreamBuilder_offer answering_provider (fst cfg_road_camera) (snd cfg_road_camera)))))
     = [AddTrack camera, AddTransceiver ''video'' ''recvonly'', CreateOffer,
        SetLocalDescription offer_sdp, SetRemoteDescription answer_sdp] \<and>
   calls (peer_connection (snd (WebRTCOfferStream_start accepting_engine (fst cfg_road_camera)
     (WebRTCStreamBuilder_offer answering_provider (fst cfg_road_camera) (snd cfg_road_camera)))))
     \<noteq> [AddTransceiver ''video'' ''recvonly'', AddTrack camera, CreateOffer,
        SetLocalDescription offer_sdp, SetRemoteDescription answer_sdp]"
  by (simp add: run_defs)

section \<open>The configuration after it is handed to a stream\<close>

text \<open>
  Claim C6, as amended. The claim says that later calls on the builder never change what
  the stream expects or attaches. The builder passes its set and its two lists
  themselves, so the stream and the builder hold the same three objects; only the audio
  flag, a boolean, is passed by value. What holds: after any further calls on the
  builder, the stream's audio flag is still the value the builder's flag had when the
  stream was built, while the stream's expected set and its two outgoing track lists
  are the builder's current ones.
\<close>

theorem stream_shares_builder_objects:
  "stream_config (fst (call_builder_all cs (h, b))) (WebRTCStreamBuilder_offer p h b) =
     (builder_config (fst (call_builder_all cs (h, b))) (snd (call_builder_all cs (h, b))))
       \<lparr>expects_audio := consume_audio b\<rparr> \<and>
   stream_config (fst (call_builder_all cs (h, b))) (WebRTCStreamBuilder_answer off b) =
     (builder_config (fst (call_builder_all cs (h, b))) (snd (call_builder_all cs (h, b))))
       \<lparr>expects_audio := consume_audio b\<rparr>"
  using call_builder_all_addrs [of cs "(h, b)"]
  by (simp add: stream_config_def builder_config_def)

text \<open>
  A stream is built from a builder that expects the road camera; then the driver camera
  is added to the builder, and a camera track and an audio consumer as well. The
  stream's expected set and outgoing video list have changed with the builder; its audio
  flag has not.
\<close>

theorem builder_mutation_reaches_stream:
  "stream_config (fst cfg_road) (WebRTCStreamBuilder_answer driver_audio_offer (snd cfg_road)) =
     \<lparr>expected_video = [''road''], expects_audio = False,
      outgoing_video = [], outgoing_audio = []\<rparr> \<and>
   stream_config
       (fst (call_builder_all
          [Add_video_consumer ''driver'', Add_video_producer camera, Add_audio_consumer] cfg_road))
       (WebRTCStreamBuilder_answer driver_audio_offer (snd cfg_road)) =
     \<lparr>expected_video = [''driver'', ''road''], expects_audio = False,
      outgoing_video = [camera], outgoing_audio = []\<rparr> \<and>
   stream_config
       (fst (call_builder_all
          [Add_video_consumer ''driver'', Add_video_producer camera, Add_audio_consumer] cfg_road))
       (WebRTCStreamBuilder_answer driver_audio_offer (snd cfg_road)) \<noteq>
     stream_config (fst cfg_road) (WebRTCStreamBuilder_answer driver_audio_offer (snd cfg_road))"
  by (simp add: stream_config_def scenario_defs builder_defs)

section \<open>Video tracks that are not expected or not well formed\<close>

text \<open>
  Claim C7. A video track whose label (the part of its identifier before the first
  colon) is not in the stream's expected set leaves the stream, and so the registry,
  unchanged, and the handler does not raise. The registry only ever holds expected
  labels: a new stream's registry is empty, and arrivals, \<^verbatim>\<open>start\<close> and later builder
  calls keep it so (\<open>registry_within_expected_init\<close>, \<open>registry_within_expected_step\<close>,
  \<open>start_keeps_registry\<close>, \<open>registry_within_expected_builder\<close>), so
  \<^verbatim>\<open>get_incoming_video_track\<close> for that label fails its assertion afterwards.
\<close>

theorem unexpected_label_dropped:
  assumes "kind t = ''video''"
    and "split CHR '':'' (track_id t) ! 0 \<notin> set (set_objs h (expected_incoming_camera_types s))"
    and "dom (incoming_camera_tracks s) \<subseteq> set (set_objs h (expected_incoming_camera_types s))"
  shows "on_incoming_track t h s = (Inr (), s) \<and>
         get_incoming_video_track (split CHR '':'' (track_id t) ! 0) buf
           (snd (on_incoming_track t h s)) = Inl (AssertionError [])"
proof -
  have same: "on_incoming_track t h s = (Inr (), s)"
    using assms(1,2) by (simp add: on_incoming_track_def Let_def)
  have "incoming_camera_tracks s (split CHR '':'' (track_id t) ! 0) = None"
    using assms(2,3) by blast
  then show ?thesis
    using same by (simp add: get_incoming_video_track_def)
qed

text \<open>
  The spec's example: \<^verbatim>\<open>wideRoad:xyz\<close> arrives at a stream that expects the road and the
  driver camera.
\<close>

theorem unexpected_label_dropped_witness:
  "kind \<lparr>kind = ''video'', track_id = ''wideRoad:xyz''\<rparr> = ''video'' \<and>
   split CHR '':'' (track_id \<lparr>kind = ''video'', track_id = ''wideRoad:xyz''\<rparr>) ! 0 = ''wideRoad'' \<and>
   ''wideRoad'' \<notin> set (set_objs (fst cfg_road_driver) (expected_incoming_camera_types
       (WebRTCStreamBuilder_answer driver_audio_offer (snd cfg_road_driver)))) \<and>
   dom (incoming_camera_tracks (WebRTCStreamBuilder_answer driver_audio_offer (snd cfg_road_driver)))
     \<subseteq> set (set_objs (fst cfg_road_driver) (expected_incoming_camera_types
       (WebRTCStreamBuilder_answer driver_audio_offer (snd cfg_road_driver)))) \<and>
   on_incoming_track \<lparr>kind = ''video'', track_id = ''wideRoad:xyz''\<rparr> (fst cfg_road_driver)
       (WebRTCStreamBuilder_answer driver_audio_offer (snd cfg_road_driver)) =
     (Inr (), WebRTCStreamBuilder_answer driver_audio_offer (snd cfg_road_driver)) \<and>
   get_incoming_video_track ''wideRoad'' False
       (snd (on_incoming_track \<lparr>kind = ''video'', track_id = ''wideRoad:xyz''\<rparr>
               (fst cfg_road_driver)
               (WebRTCStreamBuilder_answer driver_audio_offer (snd cfg_road_driver))))
     = Inl (AssertionError [])"
proof -
  have parts: "split CHR '':'' (track_id \<lparr>kind = ''video'', track_id = ''wideRoad:xyz''\<rparr>)
                 = [''wideRoad'', ''xyz'']"
    by simp
  have expected: "set_objs (fst cfg_road_driver) (expected_incoming_camera_types
       (WebRTCStreamBuilder_answer driver_audio_offer (snd cfg_road_driver)))
       = [''driver'', ''road'']"
    by (simp add: scenario_defs builder_defs)
  show ?thesis
    using unexpected_label_dropped [of "\<lparr>kind = ''video'', track_id = ''wideRoad:xyz''\<rparr>"
        "fst cfg_road_driver" "WebRTCStreamBuilder_answer driver_audio_offer (snd cfg_road_driver)"
        False]
    unfolding parts expected by auto
qed

text \<open>
  Claim C8. A video track whose identifier splits at colons into fewer than two parts
  (by \<open>split_short_iff\<close>: an identifier without a colon) leaves the stream, and so the
  registry, unchanged, and the handler does not raise.
\<close>

theorem malformed_video_id_ignored:
  assumes "kind t = ''video''"
    and "length (split CHR '':'' (track_id t)) < 2"
  shows "on_incoming_track t h s = (Inr (), s)"
  using assms by (simp add: on_incoming_track_def)

text \<open>
  The spec's example \<^verbatim>\<open>onlylabel\<close>, at a stream that expects the road camera.
\<close>

theorem malformed_video_id_ignored_witness:
  "kind \<lparr>kind = ''video'', track_id = ''onlylabel''\<rparr> = ''video'' \<and>
   length (split CHR '':'' (track_id \<lparr>kind = ''video'', track_id = ''onlylabel''\<rparr>)) < 2 \<and>
   on_incoming_track \<lparr>kind = ''video'', track_id = ''onlylabel''\<rparr> (fst cfg_road)
       (WebRTCStreamBuilder_answer driver_audio_offer (snd cfg_road))
     = (Inr (), WebRTCStreamBuilder_answer driver_audio_offer (snd cfg_road))"
  using malformed_video_id_ignored [of "\<lparr>kind = ''video'', track_id = ''onlylabel''\<rparr>"
      "fst cfg_road" "WebRTCStreamBuilder_answer driver_audio_offer (snd cfg_road)"]
  by simp

section \<open>The builder's adding methods\<close>

text \<open>
  Claim C9. \<^verbatim>\<open>add_video_consumer\<close> fails its assertion exactly when the label is none of
  \<^verbatim>\<open>driver\<close>, \<^verbatim>\<open>wideRoad\<close>, \<^verbatim>\<open>road\<close>. For one of these labels the call succeeds; calling
  it any number of times (at least once) leaves the builder and the store as one call
  does; the expected set grows by at most one element; and when the label is already in
  the set the call changes nothing and does not fail.
\<close>

theorem add_video_consumer_idempotent:
  "(fst (add_video_consumer c h b) = Inl (AssertionError []) \<longleftrightarrow>
      c \<notin> {''driver'', ''wideRoad'', ''road''}) \<and>
   (c \<in> {''driver'', ''wideRoad'', ''road''} \<longrightarrow>
      fst (add_video_consumer c h b) = Inr () \<and>
      call_builder_all (replicate (Suc n) (Add_video_consumer c)) (h, b)
        = snd (add_video_consumer c h b) \<and>
      card (set (set_objs (fst (call_builder_all (replicate (Suc n) (Add_video_consumer c)) (h, b)))
                   (consumed_camera_tracks b)))
        \<le> card (set (set_objs h (consumed_camera_tracks b))) + 1 \<and>
      (c \<in> set (set_objs h (consumed_camera_tracks b)) \<longrightarrow>
         add_video_consumer c h b = (Inr (), h, b)))"
proof -
  have fail: "fst (add_video_consumer c h b) = Inl (AssertionError []) \<longleftrightarrow>
      c \<notin> {''driver'', ''wideRoad'', ''road''}"
    by (simp add: add_video_consumer_def)
  have iter: "call_builder_all (replicate (Suc n) (Add_video_consumer c)) (h, b)
        = snd (add_video_consumer c h b)"
    using add_video_consumer_repeated [of n c "(h, b)"] by simp
  have size: "card (set (set_objs (fst (snd (add_video_consumer c h b))) (consumed_camera_tracks b)))
        \<le> card (set (set_objs h (consumed_camera_tracks b))) + 1"
    by (simp add: add_video_consumer_def set_add_def card_insert_if)
  have noop: "c \<in> {''driver'', ''wideRoad'', ''road''} \<Longrightarrow>
      c \<in> set (set_objs h (consumed_camera_tracks b)) \<Longrightarrow>
         add_video_consumer c h b = (Inr (), h, b)"
    by (simp add: add_video_consumer_def set_add_def)
  have ok: "c \<in> {''driver'', ''wideRoad'', ''road''} \<Longrightarrow>
      fst (add_video_consumer c h b) = Inr ()"
    by (simp add: add_video_consumer_def)
  show ?thesis
    using fail size noop ok unfolding iter by blast
qed

text \<open>
  The label \<^verbatim>\<open>front\<close> is refused; \<^verbatim>\<open>road\<close> added three times to a new builder gives the
  builder that one call gives, with one expected label; one more call changes nothing.
\<close>

theorem add_video_consumer_idempotent_witness:
  "fst (add_video_consumer ''front'' (fst cfg_empty) (snd cfg_empty)) = Inl (AssertionError []) \<and>
   ''road'' \<in> {''driver'', ''wideRoad'', ''road''} \<and>
   fst (add_video_consumer ''road'' (fst cfg_empty) (snd cfg_empty)) = Inr () \<and>
   call_builder_all (replicate (Suc 2) (Add_video_consumer ''road'')) cfg_empty = cfg_road \<and>
   card (set (set_objs (fst cfg_road) (consumed_camera_tracks (snd cfg_empty)))) = 1 \<and>
   ''road'' \<in> set (set_objs (fst cfg_road) (consumed_camera_tracks (snd cfg_road))) \<and>
   add_video_consumer ''road'' (fst cfg_road) (snd cfg_road) = (Inr (), fst cfg_road, snd cfg_road)"
proof -
  have valid: "''road'' \<in> {''driver'', ''wideRoad'', ''road''}"
    by simp
  have invalid: "''front'' \<notin> {''driver'', ''wideRoad'', ''road''}"
    by simp
  have stored: "''road'' \<in> set (set_objs (fst cfg_road) (consumed_camera_tracks (snd cfg_road)))"
    by (simp add: scenario_defs builder_defs)
  have road: "snd (add_video_consumer ''road'' (fst cfg_empty) (snd cfg_empty)) = cfg_road"
    by (simp add: cfg_road_def)
  have one: "card (set (set_objs (fst cfg_road) (consumed_camera_tracks (snd cfg_empty)))) = 1"
    by (simp add: scenario_defs builder_defs)
  show ?thesis
    using add_video_consumer_idempotent [of "''front''" "fst cfg_empty" "snd cfg_empty" 2]
      add_video_consumer_idempotent [of "''road''" "fst cfg_empty" "snd cfg_empty" 2]
      add_video_consumer_idempotent [of "''road''" "fst cfg_road" "snd cfg_road" 2]
      valid invalid stored road one
    by simp
qed

text \<open>
  Claim C10. Whenever one of the four adding methods of the builder raises, the store
  (the expected-label set and both outgoing track lists) and the builder (its audio flag
  and the objects it holds) are exactly as before the call. By \<open>builder_failures\<close> the
  calls that raise are: \<^verbatim>\<open>add_video_consumer\<close> with a label outside the three camera
  types, \<^verbatim>\<open>add_audio_consumer\<close> when audio is already consumed, and
  \<^verbatim>\<open>add_video_producer\<close>/\<^verbatim>\<open>add_audio_producer\<close> with a track of another kind.
\<close>

theorem failed_builder_call_leaves_state:
  "(isl (fst (add_video_consumer c h b)) \<longrightarrow> snd (add_video_consumer c h b) = (h, b)) \<and>
   (isl (fst (add_audio_consumer h b)) \<longrightarrow> snd (add_audio_consumer h b) = (h, b)) \<and>
   (isl (fst (add_video_producer t h b)) \<longrightarrow> snd (add_video_producer t h b) = (h, b)) \<and>
   (isl (fst (add_audio_producer t h b)) \<longrightarrow> snd (add_audio_producer t h b) = (h, b))"
  by (simp add: add_video_consumer_def add_audio_consumer_def add_video_producer_def
      add_audio_producer_def)

text \<open>
  On a builder that already consumes audio: the label \<^verbatim>\<open>front\<close>, a second audio
  consumer, and a data-kind track offered as a video and as an audio producer.
\<close>

theorem failed_builder_call_leaves_state_witness:
  "isl (fst (add_video_consumer ''front'' (fst cfg_audio) (snd cfg_audio))) \<and>
   snd (add_video_consumer ''front'' (fst cfg_audio) (snd cfg_audio)) = cfg_audio \<and>
   isl (fst (add_audio_consumer (fst cfg_audio) (snd cfg_audio))) \<and>
   snd (add_audio_consumer (fst cfg_audio) (snd cfg_audio)) = cfg_audio \<and>
   isl (fst (add_video_producer \<lparr>kind = ''data'', track_id = ''d''\<rparr> (fst cfg_audio) (snd cfg_audio))) \<and>
   snd (add_video_producer \<lparr>kind = ''data'', track_id = ''d''\<rparr> (fst cfg_audio) (snd cfg_audio))
     = cfg_audio \<and>
   isl (fst (add_audio_producer \<lparr>kind = ''data'', track_id = ''d''\<rparr> (fst cfg_audio) (snd cfg_audio))) \<and>
   snd (add_audio_producer \<lparr>kind = ''data'', track_id = ''d''\<rparr> (fst cfg_audio) (snd cfg_audio))
     = cfg_audio"
proof -
  have fails:
    "isl (fst (add_video_consumer ''front'' (fst cfg_audio) (snd cfg_audio)))"
    "isl (fst (add_audio_consumer (fst cfg_audio) (snd cfg_audio)))"
    "isl (fst (add_video_producer \<lparr>kind = ''data'', track_id = ''d''\<rparr>
                 (fst cfg_audio) (snd cfg_audio)))"
    "isl (fst (add_audio_producer \<lparr>kind = ''data'', track_id = ''d''\<rparr>
                 (fst cfg_audio) (snd cfg_audio)))"
    by (simp_all add: builder_failures scenario_defs builder_defs)
  show ?thesis
    using fails
      failed_builder_call_leaves_state [of "''front''" "fst cfg_audio" "snd cfg_audio"
        "\<lparr>kind = ''data'', track_id = ''d''\<rparr>"]
    by simp
qed

end
